theory Spec2Isabelle
  imports Main
begin

section \<open>The CIPP authentication gateway (auth-proxy/server.js)\<close>

text \<open>
  A shallow embedding of \<^verbatim>\<open>src/auth-proxy/server.js\<close>: an Express application that
  runs an OpenID-Connect login, keeps the signed-in user in a server-side session,
  forwards \<^verbatim>\<open>/api\<close> to a backend with identity headers derived from the session, and
  serves a static frontend.

  Conventions of the model:
  \<^item> a JavaScript string is a \<^typ>\<open>string\<close>, read as the bytes of its UTF-8 encoding
    (a request target, which Node reads byte by byte, as its bytes);
  \<^item> \<^verbatim>\<open>String.prototype.toLowerCase\<close> is the Unicode case mapping of the JavaScript
    runtime. It is not part of the source and is a parameter of the model, carried in
    the configuration record: nothing is assumed of it in the definitions;
  \<^item> \<^verbatim>\<open>undefined\<close> is \<^term>\<open>None\<close>; a value is falsy when it is \<^verbatim>\<open>undefined\<close> or the
    empty string, which is all that \<^verbatim>\<open>a || b\<close> asks of the values met here;
  \<^item> the libraries (Express, express-session, openid-client, http-proxy-middleware) are
    not part of the source: what the program relies on is written out as definitions
    whose comments name the library behaviour they stand for, and the OIDC client is a
    parameter.
\<close>

subsection \<open>JavaScript strings and values\<close>

definition lower_char :: "char \<Rightarrow> char" where
  "lower_char c =
     (let n = (of_char c :: nat) in if 65 \<le> n \<and> n \<le> 90 then char_of (n + 32) else c)"

definition ascii_lower :: "string \<Rightarrow> string" where
  \<comment> \<open>the letters A to Z lowered and nothing else: what the flag \<^verbatim>\<open>i\<close> of a path
      pattern amounts to when the pattern is ASCII, as the patterns of this program are\<close>
  "ascii_lower s = map lower_char s"

definition startsWith :: "string \<Rightarrow> string \<Rightarrow> bool" where
  \<comment> \<open>\<^verbatim>\<open>s.startsWith(p)\<close>\<close>
  "startsWith s p = (take (length p) s = p)"

fun js_replace :: "string \<Rightarrow> string \<Rightarrow> string \<Rightarrow> string" where
  \<comment> \<open>\<^verbatim>\<open>s.replace(pat, rep)\<close> with a string pattern: the first occurrence only\<close>
  "js_replace [] pat rep = (if pat = [] then rep else [])"
| "js_replace (c # cs) pat rep =
     (if startsWith (c # cs) pat then rep @ drop (length pat) (c # cs)
      else c # js_replace cs pat rep)"

definition truthy :: "string option \<Rightarrow> bool" where
  \<comment> \<open>a string or \<^verbatim>\<open>undefined\<close> in a boolean position\<close>
  "truthy v = (case v of None \<Rightarrow> False | Some s \<Rightarrow> s \<noteq> [])"

definition js_or :: "string option \<Rightarrow> string option \<Rightarrow> string option" where
  \<comment> \<open>\<^verbatim>\<open>a || b\<close>\<close>
  "js_or a b = (if truthy a then a else b)"

definition js_or_lit :: "string option \<Rightarrow> string \<Rightarrow> string" where
  \<comment> \<open>\<^verbatim>\<open>a || "literal"\<close>: the result is always a string\<close>
  "js_or_lit a d = (case a of None \<Rightarrow> d | Some s \<Rightarrow> if s = [] then d else s)"

definition template :: "string option \<Rightarrow> string" where
  \<comment> \<open>a value inside a template literal: \<^verbatim>\<open>undefined\<close> prints as its name\<close>
  "template v = (case v of None \<Rightarrow> ''undefined'' | Some s \<Rightarrow> s)"

subsection \<open>Configuration (lines 13-21)\<close>

record config =
  toLowerCase :: "string \<Rightarrow> string"
  TENANT_ID :: "string option"
  CALLBACK_URL :: string
  API_BACKEND_URL :: string
  DEFAULT_ADMIN_UPN :: string
  BASE_URL :: string

text \<open>
  The field \<^term>\<open>toLowerCase\<close> is the runtime's \<^verbatim>\<open>String.prototype.toLowerCase\<close>; the
  other fields are the constants of lines 13-21.
\<close>

definition load_config :: "(string \<Rightarrow> string) \<Rightarrow> (string \<rightharpoonup> string) \<Rightarrow> config" where
  \<comment> \<open>the arguments are the runtime's \<^verbatim>\<open>toLowerCase\<close> and \<^verbatim>\<open>process.env\<close>\<close>
  "load_config lc env =
     (let callback = js_or_lit (env ''CALLBACK_URL'') ''https://localhost/auth/callback'' in
      \<lparr> toLowerCase = lc,
        TENANT_ID = env ''AZURE_AD_TENANT_ID'',
        CALLBACK_URL = callback,
        API_BACKEND_URL = js_or_lit (env ''API_BACKEND_URL'') ''http://nginx-api:80'',
        DEFAULT_ADMIN_UPN = lc (js_or_lit (env ''DEFAULT_ADMIN_UPN'') ''''),
        BASE_URL = js_replace callback ''/auth/callback'' '''' \<rparr>)"

subsection \<open>The session user and the client principal (lines 74-90)\<close>

record auth_user =
  oid :: "string option"
  email :: string
  name :: string

record principal =
  identityProvider :: string
  userId :: "string option"
  userDetails :: string
  userRoles :: "string list"

definition buildClientPrincipal :: "config \<Rightarrow> auth_user option \<Rightarrow> principal option" where
  "buildClientPrincipal cfg u =
     (case u of
        None \<Rightarrow> None
      | Some usr \<Rightarrow>
          (let roles = [''authenticated'', ''anonymous''];
               roles' = (if DEFAULT_ADMIN_UPN cfg \<noteq> [] \<and>
                            toLowerCase cfg (email usr) = DEFAULT_ADMIN_UPN cfg
                         then roles @ [''admin''] else roles)
           in Some \<lparr> identityProvider = ''aad'',
                     userId = oid usr,
                     userDetails = email usr,
                     userRoles = roles' \<rparr>))"

subsection \<open>JSON values and \<^verbatim>\<open>JSON.stringify\<close>\<close>

datatype json = JNull | JBool bool | JString string | JArray "json list"
  | JObject "(string \<times> json) list"

definition hex_digit :: "nat \<Rightarrow> char" where
  "hex_digit n = ''0123456789abcdef'' ! n"

definition quote_char :: "char \<Rightarrow> string" where
  \<comment> \<open>the escapes of a JSON string: quote, backslash, the short forms, then
      \<^verbatim>\<open>\u00xx\<close> for the other control characters\<close>
  "quote_char c =
     (let n = (of_char c :: nat) in
      if n = 34 then [CHR 0x5C, CHR 0x22]
      else if n = 92 then [CHR 0x5C, CHR 0x5C]
      else if n = 8 then [CHR 0x5C, CHR ''b'']
      else if n = 12 then [CHR 0x5C, CHR ''f'']
      else if n = 10 then [CHR 0x5C, CHR ''n'']
      else if n = 13 then [CHR 0x5C, CHR ''r'']
      else if n = 9 then [CHR 0x5C, CHR ''t'']
      else if n < 32 then
        [CHR 0x5C, CHR ''u'', CHR ''0'', CHR ''0'', hex_digit (n div 16), hex_digit (n mod 16)]
      else [c])"

definition quote :: "string \<Rightarrow> string" where
  "quote s = [CHR 0x22] @ concat (map quote_char s) @ [CHR 0x22]"

fun join :: "string \<Rightarrow> string list \<Rightarrow> string" where
  "join sep [] = []"
| "join sep [x] = x"
| "join sep (x # y # ys) = x @ sep @ join sep (y # ys)"

fun stringify :: "json \<Rightarrow> string" where
  "stringify JNull = ''null''"
| "stringify (JBool b) = (if b then ''true'' else ''false'')"
| "stringify (JString s) = quote s"
| "stringify (JArray xs) = ''['' @ join '','' (map stringify xs) @ '']''"
| "stringify (JObject kvs) =
     ''{'' @ join '','' (map (\<lambda>kv. quote (fst kv) @ '':'' @ stringify (snd kv)) kvs) @ ''}''"

definition principal_json :: "principal option \<Rightarrow> json" where
  \<comment> \<open>the principal as a JSON value: \<^verbatim>\<open>null\<close> stays \<^verbatim>\<open>null\<close>, and a property whose value
      is \<^verbatim>\<open>undefined\<close> is left out, as \<^verbatim>\<open>JSON.stringify\<close> and \<^verbatim>\<open>res.json\<close> do\<close>
  "principal_json p =
     (case p of
        None \<Rightarrow> JNull
      | Some pr \<Rightarrow>
          JObject ([(''identityProvider'', JString (identityProvider pr))] @
                   (case userId pr of None \<Rightarrow> [] | Some i \<Rightarrow> [(''userId'', JString i)]) @
                   [(''userDetails'', JString (userDetails pr)),
                    (''userRoles'', JArray (map JString (userRoles pr)))]))"

subsection \<open>Base64 (\<^verbatim>\<open>Buffer.from(s, "utf8").toString("base64")\<close>)\<close>

definition b64_alphabet :: string where
  "b64_alphabet = ''ABCDEFGHIJKLMNOPQRSTUVWXYZabcdefghijklmnopqrstuvwxyz0123456789+/''"

definition b64_char :: "nat \<Rightarrow> char" where
  "b64_char n = b64_alphabet ! n"

fun base64_encode :: "string \<Rightarrow> string" where
  "base64_encode [] = []"
| "base64_encode [a] =
     (let x = (of_char a :: nat) in
      [b64_char (x div 4), b64_char (x mod 4 * 16), CHR ''='', CHR ''=''])"
| "base64_encode [a, b] =
     (let x = (of_char a :: nat); y = (of_char b :: nat) in
      [b64_char (x div 4), b64_char (x mod 4 * 16 + y div 16), b64_char (y mod 16 * 4),
       CHR ''=''])"
| "base64_encode (a # b # c # rest) =
     (let x = (of_char a :: nat); y = (of_char b :: nat); z = (of_char c :: nat) in
      [b64_char (x div 4), b64_char (x mod 4 * 16 + y div 16),
       b64_char (y mod 16 * 4 + z div 64), b64_char (z mod 64)] @ base64_encode rest)"







subsection \<open>\<^verbatim>\<open>encodeURIComponent\<close>\<close>

definition uri_unreserved :: "char \<Rightarrow> bool" where
  \<comment> \<open>the characters \<^verbatim>\<open>encodeURIComponent\<close> leaves alone: letters, digits and
      \<^verbatim>\<open>- _ . ! ~ * ' ( )\<close>\<close>
  "uri_unreserved c =
     (c \<in> set (''ABCDEFGHIJKLMNOPQRSTUVWXYZabcdefghijklmnopqrstuvwxyz0123456789-_.!~*()''
               @ [CHR 0x27]))"

definition upper_hex :: "nat \<Rightarrow> char" where
  "upper_hex n = ''0123456789ABCDEF'' ! n"

definition encode_char :: "char \<Rightarrow> string" where
  "encode_char c =
     (if uri_unreserved c then [c]
      else (let n = (of_char c :: nat) in [CHR ''%'', upper_hex (n div 16), upper_hex (n mod 16)]))"

definition encodeURIComponent :: "string \<Rightarrow> string" where
  "encodeURIComponent s = concat (map encode_char s)"

subsection \<open>Requests, sessions and responses\<close>

text \<open>
  A query parameter given once reaches the handler as a string; given more than once
  (\<^verbatim>\<open>?a=1&a=2\<close>) Express's query parser hands over an array. An array is truthy and has
  no \<^verbatim>\<open>startsWith\<close>. (A parameter written with brackets arrives as an object, which
  is truthy and has no \<^verbatim>\<open>startsWith\<close> either; the array stands for both.)
\<close>

datatype query_value = QString string | QArray "string list"

definition q_truthy :: "query_value option \<Rightarrow> bool" where
  "q_truthy v = (case v of None \<Rightarrow> False | Some (QString s) \<Rightarrow> s \<noteq> [] | Some (QArray xs) \<Rightarrow> True)"

definition q_or :: "query_value option \<Rightarrow> query_value option \<Rightarrow> query_value option" where
  \<comment> \<open>\<^verbatim>\<open>a || b\<close> on query values\<close>
  "q_or a b = (if q_truthy a then a else b)"

definition q_or_lit :: "query_value option \<Rightarrow> string \<Rightarrow> query_value" where
  \<comment> \<open>\<^verbatim>\<open>a || "literal"\<close> on query values\<close>
  "q_or_lit a d =
     (case a of
        None \<Rightarrow> QString d
      | Some (QString s) \<Rightarrow> if s = [] then QString d else QString s
      | Some (QArray xs) \<Rightarrow> QArray xs)"

definition js_String :: "query_value \<Rightarrow> string" where
  \<comment> \<open>\<^verbatim>\<open>String(v)\<close>: an array prints its elements with commas\<close>
  "js_String v = (case v of QString s \<Rightarrow> s | QArray xs \<Rightarrow> join '','' xs)"

record session_data =
  user :: "auth_user option"
  oidcNonce :: "string option"
  oidcState :: "string option"
  postLoginRedirect :: "query_value option"

definition empty_session :: session_data where
  \<comment> \<open>what express-session generates for a browser that presents no known session\<close>
  "empty_session = \<lparr> user = None, oidcNonce = None, oidcState = None, postLoginRedirect = None \<rparr>"

definition load_session :: "session_data option \<Rightarrow> session_data" where
  \<comment> \<open>the session middleware (lines 34-46): \<^verbatim>\<open>req.session\<close> is the stored session, or a
      fresh one when the store has none; so \<^verbatim>\<open>req.session\<close> is never missing\<close>
  "load_session stored = (case stored of None \<Rightarrow> empty_session | Some s \<Rightarrow> s)"

record request =
  rmethod :: string
  url :: string
  headers :: "string \<rightharpoonup> string"
  query :: "string \<rightharpoonup> query_value"
  session :: session_data

text \<open>
  \<^term>\<open>rmethod\<close> is \<^verbatim>\<open>req.method\<close> (upper case, as Node gives it), \<^term>\<open>url\<close> is
  \<^verbatim>\<open>req.url\<close> as received (path, then the query string if any), \<^term>\<open>headers\<close> is
  \<^verbatim>\<open>req.headers\<close> (Node lower-cases the names), \<^term>\<open>query\<close> is \<^verbatim>\<open>req.query\<close>.
\<close>

datatype response =
    Json nat json       \<comment> \<open>\<^verbatim>\<open>res.json(v)\<close>: the status and the value\<close>
  | Send nat string     \<comment> \<open>\<^verbatim>\<open>res.status(n).send(text)\<close>\<close>
  | Redirect string     \<comment> \<open>\<^verbatim>\<open>res.redirect(target)\<close>: a 302 to the target\<close>

datatype outcome =
    Respond response        \<comment> \<open>a handler of the gateway answers\<close>
  | Proxy string request    \<comment> \<open>handed to the proxy: the URL after \<^verbatim>\<open>pathRewrite\<close>, and the
                                request with the headers to send on\<close>
  | Static                  \<comment> \<open>\<^verbatim>\<open>express.static\<close> or the SPA fallback serves a file\<close>
  | Unrouted                \<comment> \<open>no handler of the program takes it: Express answers by itself\<close>
  | Uncaught string         \<comment> \<open>an exception thrown outside any \<^verbatim>\<open>try\<close> and outside Express\<close>

text \<open>
  The 502 answer of lines 230-236, given when the backend cannot be reached, is outside
  the model, and so are cookies and the expiry of sessions.
\<close>

subsection \<open>The OIDC client (openid-client, a parameter of the model)\<close>

text \<open>
  \<^verbatim>\<open>authorizationUrl\<close> takes the scope, the nonce and the state. \<^verbatim>\<open>callback\<close> stands
  for \<^verbatim>\<open>callbackParams\<close>, \<^verbatim>\<open>callback\<close> and \<^verbatim>\<open>claims\<close> together: from the redirect URI, the
  request URL and the expected nonce and state it gives the claims of the ID token, or
  the message of the error it throws.
\<close>

record oidc_client =
  authorizationUrl :: "string \<Rightarrow> string \<Rightarrow> string \<Rightarrow> string"
  callback :: "string \<Rightarrow> string \<Rightarrow> string option \<Rightarrow> string option \<Rightarrow> string + (string \<rightharpoonup> string)"

record generators =
  nonce :: string
  state :: string



subsection \<open>Routing (Express 4)\<close>

text \<open>
  What the program relies on in Express's router, version 4 (the one that accepts the
  path \<^verbatim>\<open>"*"\<close> of line 250):
  \<^item> a route path is matched against the path of the URL without regard to letter case,
    and with or without one closing slash;
  \<^item> \<^verbatim>\<open>app.get\<close> also takes HEAD requests when the path has no HEAD handler;
  \<^item> \<^verbatim>\<open>app.use("/api", ...)\<close> takes the paths that continue \<^verbatim>\<open>/api\<close> with nothing or with
    a slash; the matched text (\<^verbatim>\<open>/api\<close>, with the slash after it when the path ends there
    or another slash follows) is cut from the front of \<^verbatim>\<open>req.url\<close>, and a slash is put
    in front when what remains does not start with one.
\<close>

definition pathname :: "string \<Rightarrow> string" where
  \<comment> \<open>the path Express routes on: the target up to its query string or fragment\<close>
  "pathname u = takeWhile (\<lambda>c. c \<noteq> CHR ''?'' \<and> c \<noteq> CHR ''#'') u"




text \<open>
  Express takes the path of a target from \<^verbatim>\<open>parseurl\<close>: for a target that starts with a
  slash and holds no \<^verbatim>\<open>#\<close> and no white space it is the text before the first \<^verbatim>\<open>?\<close>;
  any other target goes through Node's \<^verbatim>\<open>url.parse\<close>, which trims white space, turns
  backslashes into slashes, reads a host out of an absolute target or of
  \<^verbatim>\<open>//user@host\<close>, escapes some characters and ends the path at \<^verbatim>\<open>?\<close> or \<^verbatim>\<open>#\<close>. On a
  \<^term>\<open>plain_target\<close> both give \<^term>\<open>pathname\<close>. Targets of other forms (absolute
  form, white space or bytes outside ASCII, a fragment together with backslashes) are
  not followed through \<^verbatim>\<open>url.parse\<close> here: what is proved about the routing of an
  arbitrary request is proved for plain targets.
\<close>

definition route_matches :: "string \<Rightarrow> string \<Rightarrow> bool" where
  "route_matches path pat = (ascii_lower path = pat \<or> ascii_lower path = pat @ ''/'')"

definition handles_get :: "string \<Rightarrow> bool" where
  "handles_get m = (m = ''GET'' \<or> m = ''HEAD'')"

definition mount_matches :: "string \<Rightarrow> bool" where
  "mount_matches path =
     (ascii_lower (take 4 path) = ''/api'' \<and> (drop 4 path = [] \<or> startsWith (drop 4 path) ''/''))"

definition mount_removed :: "string \<Rightarrow> nat" where
  \<comment> \<open>the length of the matched text\<close>
  "mount_removed path =
     (if startsWith (drop 4 path) ''/'' \<and> (drop 5 path = [] \<or> startsWith (drop 5 path) ''/'')
      then 5 else 4)"

definition mount_strip :: "string \<Rightarrow> string" where
  \<comment> \<open>\<^verbatim>\<open>req.url\<close> as the middleware mounted on \<^verbatim>\<open>/api\<close> sees it\<close>
  "mount_strip u =
     (let u' = drop (mount_removed (pathname u)) u
      in if startsWith u' ''/'' then u' else ''/'' @ u')"

subsection \<open>The handlers\<close>

definition health_handler :: "oidc_client option \<Rightarrow> response" where
  \<comment> \<open>lines 51-53\<close>
  "health_handler oidcClient =
     Json 200 (JObject [(''status'', JString ''ok''), (''oidc'', JBool (oidcClient \<noteq> None))])"

definition auth_me_handler :: "config \<Rightarrow> request \<Rightarrow> response" where
  \<comment> \<open>lines 97-100\<close>
  "auth_me_handler cfg req =
     (let principal = buildClientPrincipal cfg (user (session req))
      in Json 200 (JObject [(''clientPrincipal'', principal_json principal)]))"

definition login_handler ::
  "oidc_client option \<Rightarrow> generators \<Rightarrow> request \<Rightarrow> outcome \<times> session_data option" where
  \<comment> \<open>lines 103-123\<close>
  "login_handler oidcClient gen req =
     (case oidcClient of
        None \<Rightarrow> (Respond (Send 503 ''Auth service not ready''), Some (session req))
      | Some client \<Rightarrow>
          (let postLoginRedirect' = q_or_lit (query req ''post_login_redirect_uri'') ''/'';
               s = (session req)\<lparr> oidcNonce := Some (nonce gen),
                                   oidcState := Some (state gen),
                                   postLoginRedirect := Some postLoginRedirect' \<rparr>;
               authUrl = authorizationUrl client ''openid profile email'' (nonce gen) (state gen)
           in (Respond (Redirect authUrl), Some s)))"

definition claims_user :: "(string \<rightharpoonup> string) \<Rightarrow> auth_user" where
  \<comment> \<open>lines 140-144\<close>
  "claims_user claims =
     \<lparr> oid = js_or (claims ''oid'') (claims ''sub''),
       email = js_or_lit (js_or (js_or (claims ''preferred_username'') (claims ''email''))
                                (claims ''upn'')) [],
       name = js_or_lit (claims ''name'') [] \<rparr>"

definition callback_handler ::
  "config \<Rightarrow> oidc_client option \<Rightarrow> request \<Rightarrow> outcome \<times> session_data option" where
  \<comment> \<open>lines 126-158; the \<^verbatim>\<open>catch\<close> logs the message and touches nothing else\<close>
  "callback_handler cfg oidcClient req =
     (case oidcClient of
        None \<Rightarrow> (Respond (Send 503 ''Auth service not ready''), Some (session req))
      | Some client \<Rightarrow>
          (case callback client (CALLBACK_URL cfg) (url req)
                  (oidcNonce (session req)) (oidcState (session req)) of
             Inl err \<Rightarrow>
               (Respond (Send 500 ''Authentication failed. Please try again.''),
                Some (session req))
           | Inr claims \<Rightarrow>
               (let s1 = (session req)\<lparr> user := Some (claims_user claims) \<rparr>;
                    s2 = s1\<lparr> oidcNonce := None, oidcState := None \<rparr>;
                    redirect = q_or_lit (postLoginRedirect s2) ''/'';
                    s3 = s2\<lparr> postLoginRedirect := None \<rparr>
                in (Respond (Redirect (js_String redirect)), Some s3))))"

definition logoutUrl :: "config \<Rightarrow> string \<Rightarrow> string" where
  \<comment> \<open>lines 167-173\<close>
  "logoutUrl cfg postLogoutRedirect =
     (let fullRedirect = (if startsWith postLogoutRedirect ''http'' then postLogoutRedirect
                          else BASE_URL cfg @ postLogoutRedirect)
      in ''https://login.microsoftonline.com/'' @ template (TENANT_ID cfg) @
         ''/oauth2/v2.0/logout'' @
         ''?post_logout_redirect_uri='' @ encodeURIComponent fullRedirect)"

definition logout_handler :: "config \<Rightarrow> request \<Rightarrow> outcome \<times> session_data option" where
  \<comment> \<open>lines 161-176. The session is destroyed first (the store holds nothing
      afterwards); the rest runs in the callback of \<^verbatim>\<open>destroy\<close>, which the session store
      calls later, outside the handler: what is thrown there is caught by nobody.\<close>
  "logout_handler cfg req =
     (let postLogoutRedirect =
            q_or_lit (q_or (query req ''post_logout_redirect_uri'')
                           (query req ''post_logout_redirect_url'')) ''/''
      in case postLogoutRedirect of
           QString p \<Rightarrow> (Respond (Redirect (logoutUrl cfg p)), None)
         | QArray xs \<Rightarrow>
             (Uncaught ''TypeError: postLogoutRedirect.startsWith is not a function'', None))"

definition api_me_handler :: "request \<Rightarrow> response option" where
  \<comment> \<open>lines 186-193; \<^term>\<open>None\<close> is \<^verbatim>\<open>next()\<close>: the request goes on to the handlers
      registered later\<close>
  "api_me_handler req =
     (if user (session req) \<noteq> None then None
      else Some (Json 200 (JObject [(''clientPrincipal'', JNull)])))"

definition strip_identity :: "(string \<rightharpoonup> string) \<Rightarrow> (string \<rightharpoonup> string)" where
  \<comment> \<open>lines 202-204\<close>
  "strip_identity h =
     h(''x-ms-client-principal'' := None,
       ''x-ms-client-principal-name'' := None,
       ''x-ms-client-principal-idp'' := None)"

definition api_middleware :: "config \<Rightarrow> request \<Rightarrow> request" where
  \<comment> \<open>lines 200-220\<close>
  "api_middleware cfg req =
     (let h = strip_identity (headers req)
      in case user (session req) of
           None \<Rightarrow> req\<lparr> headers := h \<rparr>
         | Some u \<Rightarrow>
             (let principal = buildClientPrincipal cfg (Some u);
                  principalJson = stringify (principal_json principal);
                  principalBase64 = base64_encode principalJson
              in req\<lparr> headers :=
                        h(''x-ms-client-principal'' \<mapsto> principalBase64,
                          ''x-ms-client-principal-name'' \<mapsto> email u,
                          ''x-ms-client-principal-idp'' \<mapsto> ''aad'') \<rparr>))"

definition pathRewrite :: "string \<Rightarrow> string" where
  \<comment> \<open>line 228\<close>
  "pathRewrite p = ''/api'' @ p"

definition api_proxy :: "config \<Rightarrow> request \<Rightarrow> outcome" where
  \<comment> \<open>lines 198-239: the mounted pair, the header middleware and then the proxy, which
      rewrites the URL it was given and sends the request on\<close>
  "api_proxy cfg req = Proxy (pathRewrite (mount_strip (url req))) (api_middleware cfg req)"

subsection \<open>The application: the handlers in the order they are registered\<close>

definition gateway ::
  "config \<Rightarrow> oidc_client option \<Rightarrow> generators \<Rightarrow> request \<Rightarrow> outcome \<times> session_data option" where
  \<comment> \<open>the result is what happens to the request and what the session store holds
      afterwards (\<^term>\<open>None\<close>: the session was destroyed)\<close>
  "gateway cfg oidcClient gen req =
     (let path = pathname (url req); get = handles_get (rmethod req);
          later = (if mount_matches path then api_proxy cfg req
                   else if get then Static else Unrouted)
      in if get \<and> route_matches path ''/health'' then
           (Respond (health_handler oidcClient), Some (session req))
         else if get \<and> route_matches path ''/.auth/me'' then
           (Respond (auth_me_handler cfg req), Some (session req))
         else if get \<and> route_matches path ''/.auth/login/aad'' then
           login_handler oidcClient gen req
         else if get \<and> route_matches path ''/auth/callback'' then
           callback_handler cfg oidcClient req
         else if get \<and> route_matches path ''/.auth/logout'' then
           logout_handler cfg req
         else if get \<and> route_matches path ''/api/me'' then
           (case api_me_handler req of
              Some res \<Rightarrow> (Respond res, Some (session req))
            | None \<Rightarrow> (later, Some (session req)))
         else (later, Some (session req)))"

subsection \<open>What http-proxy sends to the backend\<close>










subsection \<open>The identity headers\<close>

definition identity_headers :: "string set" where
  "identity_headers =
     {''x-ms-client-principal'', ''x-ms-client-principal-name'', ''x-ms-client-principal-idp''}"

subsection \<open>Concrete inputs\<close>

definition example_env :: "string \<rightharpoonup> string" where
  "example_env =
     [''AZURE_AD_TENANT_ID'' \<mapsto> ''contoso'',
      ''CALLBACK_URL'' \<mapsto> ''https://cipp.example.com/auth/callback'',
      ''DEFAULT_ADMIN_UPN'' \<mapsto> ''Admin@Example.com'']"

definition kelvin_sign :: string where
  \<comment> \<open>the UTF-8 bytes of U+212A, which \<^verbatim>\<open>toLowerCase\<close> maps to the letter k\<close>
  "kelvin_sign = [CHR 0xE2, CHR 0x84, CHR 0xAA]"

fun sample_toLowerCase :: "string \<Rightarrow> string" where
  \<comment> \<open>a case mapping to compute with: the runtime's on the ASCII characters and on
      U+212A\<close>
  "sample_toLowerCase (a # b # c # cs) =
     (if [a, b, c] = kelvin_sign then CHR ''k'' # sample_toLowerCase cs
      else lower_char a # sample_toLowerCase (b # c # cs))"
| "sample_toLowerCase (a # cs) = lower_char a # sample_toLowerCase cs"
| "sample_toLowerCase [] = []"

definition example_config :: config where
  "example_config = load_config sample_toLowerCase example_env"

definition kelvin_env :: "string \<rightharpoonup> string" where
  "kelvin_env = [''DEFAULT_ADMIN_UPN'' \<mapsto> ''kim@example.com'']"

definition kelvin_user :: auth_user where
  "kelvin_user =
     \<lparr> oid = Some ''0003'', email = kelvin_sign @ ''im@example.com'', name = ''Kim'' \<rparr>"


definition admin_user :: auth_user where
  "admin_user = \<lparr> oid = Some ''0001'', email = ''ADMIN@example.com'', name = ''Ada'' \<rparr>"

definition plain_user :: auth_user where
  "plain_user = \<lparr> oid = Some ''0002'', email = ''bob@example.com'', name = ''Bob'' \<rparr>"

definition nameless_user :: auth_user where
  "nameless_user = \<lparr> oid = None, email = [], name = [] \<rparr>"

definition example_claims :: "string \<rightharpoonup> string" where
  "example_claims =
     [''sub'' \<mapsto> ''sub-1'', ''preferred_username'' \<mapsto> [],
      ''email'' \<mapsto> ''bob@example.com'', ''upn'' \<mapsto> ''bob@corp.example.com'']"

definition example_client :: oidc_client where
  \<comment> \<open>a provider that accepts one callback, the one that answers the login with nonce
      \<^verbatim>\<open>nonce-1\<close> and state \<^verbatim>\<open>state-1\<close>\<close>
  "example_client =
     \<lparr> authorizationUrl = (\<lambda>scope n s.
         ''https://login.example/authorize?scope='' @ scope @ ''&nonce='' @ n @ ''&state='' @ s),
       callback = (\<lambda>redirect_uri u n s.
         if u = ''/auth/callback?code=abc&state=state-1'' \<and> n = Some ''nonce-1'' \<and>
            s = Some ''state-1''
         then Inr example_claims else Inl ''state mismatch: expected state-1'') \<rparr>"

definition example_gen :: generators where
  "example_gen = \<lparr> nonce = ''nonce-1'', state = ''state-1'' \<rparr>"

definition pending_session :: session_data where
  \<comment> \<open>the session after a login was started with \<^term>\<open>example_gen\<close>\<close>
  "pending_session =
     \<lparr> user = None, oidcNonce = Some ''nonce-1'', oidcState = Some ''state-1'',
       postLoginRedirect = Some (QString ''/tenants'') \<rparr>"

definition user_session :: "auth_user \<Rightarrow> session_data" where
  "user_session u = empty_session\<lparr> user := Some u \<rparr>"

definition spoofed_headers :: "string \<rightharpoonup> string" where
  "spoofed_headers =
     [''accept'' \<mapsto> ''application/json'',
      ''x-ms-client-principal'' \<mapsto> ''Zm9yZ2Vk'',
      ''x-ms-client-principal-name'' \<mapsto> ''admin@example.com'',
      ''x-ms-client-principal-idp'' \<mapsto> ''aad'']"

definition plain_headers :: "string \<rightharpoonup> string" where
  "plain_headers = [''accept'' \<mapsto> ''application/json'']"

definition example_request :: "string \<Rightarrow> string \<Rightarrow> session_data \<Rightarrow> request" where
  "example_request m u s =
     \<lparr> rmethod = m, url = u, headers = spoofed_headers, query = Map.empty, session = s \<rparr>"

definition good_callback_request :: request where
  "good_callback_request =
     \<lparr> rmethod = ''GET'', url = ''/auth/callback?code=abc&state=state-1'',
       headers = plain_headers,
       query = [''code'' \<mapsto> QString ''abc'', ''state'' \<mapsto> QString ''state-1''],
       session = pending_session \<rparr>"

definition forged_callback_request :: request where
  \<comment> \<open>a callback whose state is not the one the login issued\<close>
  "forged_callback_request =
     \<lparr> rmethod = ''GET'', url = ''/auth/callback?code=abc&state=evil'',
       headers = plain_headers,
       query = [''code'' \<mapsto> QString ''abc'', ''state'' \<mapsto> QString ''evil''],
       session = pending_session \<rparr>"

definition logout_request :: "string \<Rightarrow> query_value option \<Rightarrow> session_data \<Rightarrow> request" where
  \<comment> \<open>a logout request: its URL, and what the query parser made of
      \<^verbatim>\<open>post_logout_redirect_uri\<close> in it\<close>
  "logout_request u target s =
     \<lparr> rmethod = ''GET'', url = u, headers = plain_headers,
       query = (\<lambda>k. if k = ''post_logout_redirect_uri'' then target else None),
       session = s \<rparr>"

section \<open>Properties\<close>

subsection \<open>Base64: decoding inverts encoding\<close>











subsection \<open>Routing and headers\<close>

lemma take4_lower: "take 4 (ascii_lower p) = ascii_lower (take 4 p)"
  by (simp add: ascii_lower_def take_map)

lemma mount_not_route:
  assumes "mount_matches p"
  shows "\<not> route_matches p ''/health''" "\<not> route_matches p ''/.auth/me''"
    "\<not> route_matches p ''/.auth/login/aad''" "\<not> route_matches p ''/auth/callback''"
    "\<not> route_matches p ''/.auth/logout''"
proof -
  from assms have a: "take 4 (ascii_lower p) = ''/api''"
    by (simp add: mount_matches_def take4_lower)
  show "\<not> route_matches p ''/health''" using a by (auto simp: route_matches_def)
  show "\<not> route_matches p ''/.auth/me''" using a by (auto simp: route_matches_def)
  show "\<not> route_matches p ''/.auth/login/aad''" using a by (auto simp: route_matches_def)
  show "\<not> route_matches p ''/auth/callback''" using a by (auto simp: route_matches_def)
  show "\<not> route_matches p ''/.auth/logout''" using a by (auto simp: route_matches_def)
qed

lemma lower_char_slash: "lower_char c = CHR ''/'' \<Longrightarrow> c = CHR ''/''"
proof -
  assume a: "lower_char c = CHR ''/''"
  show ?thesis
  proof (cases "65 \<le> (of_char c :: nat) \<and> (of_char c :: nat) \<le> 90")
    case True
    with a have "char_of (of_char c + 32 :: nat) = CHR ''/''"
      by (simp add: lower_char_def Let_def)
    then have "(of_char (char_of (of_char c + 32 :: nat)) :: nat) = of_char CHR ''/''"
      by simp
    with True show ?thesis by (simp add: of_char_of)
  next
    case False
    with a show ?thesis by (auto simp add: lower_char_def Let_def)
  qed
qed

lemma api_me_is_mounted:
  assumes "route_matches p ''/api/me''"
  shows "mount_matches p"
proof -
  from assms have lp: "ascii_lower p = ''/api/me'' \<or> ascii_lower p = ''/api/me/''"
    by (simp add: route_matches_def)
  then have t: "ascii_lower (take 4 p) = ''/api''"
    unfolding take4_lower[symmetric] by auto
  from lp have d: "ascii_lower (drop 4 p) = ''/me'' \<or> ascii_lower (drop 4 p) = ''/me/''"
    by (auto simp: ascii_lower_def drop_map[symmetric])
  then obtain c cs where dc: "drop 4 p = c # cs" "lower_char c = CHR ''/''"
    by (cases "drop 4 p") (auto simp: ascii_lower_def)
  from dc(2) have "c = CHR ''/''" by (rule lower_char_slash)
  with dc(1) have "startsWith (drop 4 p) ''/''" by (simp add: startsWith_def)
  with t show ?thesis by (simp add: mount_matches_def)
qed

lemma gateway_api:
  assumes "mount_matches (pathname (url req))"
  shows "gateway cfg oidcClient gen req =
     (if handles_get (rmethod req) \<and> route_matches (pathname (url req)) ''/api/me'' \<and>
         user (session req) = None
      then (Respond (Json 200 (JObject [(''clientPrincipal'', JNull)])), Some (session req))
      else (api_proxy cfg req, Some (session req)))"
  using mount_not_route[OF assms] assms by (simp add: gateway_def api_me_handler_def Let_def)

lemma strip_identity_None: "k \<in> identity_headers \<Longrightarrow> strip_identity h k = None"
  by (auto simp: identity_headers_def strip_identity_def)










lemma api_middleware_unauth:
  assumes "user (session req) = None" "k \<in> identity_headers"
  shows "headers (api_middleware cfg req) k = None"
  using assms by (simp add: api_middleware_def strip_identity_None)


subsection \<open>The principal builder\<close>

lemma DEFAULT_ADMIN_UPN_load:
  "DEFAULT_ADMIN_UPN (load_config lc env) = lc (js_or_lit (env ''DEFAULT_ADMIN_UPN'') [])"
  by (simp add: load_config_def Let_def)

lemma toLowerCase_load: "toLowerCase (load_config lc env) = lc"
  by (simp add: load_config_def Let_def)

lemma admin_in_roles:
  "buildClientPrincipal cfg (Some u) = Some p \<Longrightarrow>
   (''admin'' \<in> set (userRoles p)) =
     (DEFAULT_ADMIN_UPN cfg \<noteq> [] \<and> toLowerCase cfg (email u) = DEFAULT_ADMIN_UPN cfg)"
  by (auto simp: buildClientPrincipal_def Let_def split: if_splits)

lemma sample_toLowerCase_Nil_iff: "(sample_toLowerCase s = []) = (s = [])"
  by (induction s rule: sample_toLowerCase.induct) simp_all

text \<open>
  Claim C3. The case mapping is the runtime's \<^verbatim>\<open>toLowerCase\<close>, whatever it is on letters
  outside ASCII; all that is used of it is that it sends the empty string, and nothing
  else, to the empty string. For every session user the principal holds the role
  \<^verbatim>\<open>admin\<close> exactly when a default-admin address is configured (the variable is set and
  not empty) and the user's email, lower-cased, equals that address, which was
  lower-cased when the configuration was loaded. With no address configured nobody is
  an admin, the user with the empty email included; an email whose lower-case form
  differs from the address is not elevated, however it is written.
\<close>

theorem admin_role_iff_default_admin:
  assumes "\<forall>s. (lc s = []) = (s = [])"
  shows "\<exists>p. buildClientPrincipal (load_config lc env) (Some u) = Some p \<and>
     toLowerCase (load_config lc env) = lc \<and>
     DEFAULT_ADMIN_UPN (load_config lc env) = lc (js_or_lit (env ''DEFAULT_ADMIN_UPN'') []) \<and>
     ((''admin'' \<in> set (userRoles p)) =
        (\<exists>a. env ''DEFAULT_ADMIN_UPN'' = Some a \<and> a \<noteq> [] \<and> lc (email u) = lc a)) \<and>
     (env ''DEFAULT_ADMIN_UPN'' = None \<or> env ''DEFAULT_ADMIN_UPN'' = Some [] \<longrightarrow>
        ''admin'' \<notin> set (userRoles p)) \<and>
     (lc (email u) \<noteq> DEFAULT_ADMIN_UPN (load_config lc env) \<longrightarrow>
        ''admin'' \<notin> set (userRoles p))"
proof -
  obtain p where p: "buildClientPrincipal (load_config lc env) (Some u) = Some p"
    by (simp add: buildClientPrincipal_def Let_def)
  note iff = admin_in_roles[OF p, unfolded toLowerCase_load]
  have adm: "DEFAULT_ADMIN_UPN (load_config lc env) =
      lc (js_or_lit (env ''DEFAULT_ADMIN_UPN'') [])"
    by (rule DEFAULT_ADMIN_UPN_load)
  have 1: "(''admin'' \<in> set (userRoles p)) =
        (\<exists>a. env ''DEFAULT_ADMIN_UPN'' = Some a \<and> a \<noteq> [] \<and> lc (email u) = lc a)"
    unfolding iff adm using assms
    by (cases "env ''DEFAULT_ADMIN_UPN''") (auto simp: js_or_lit_def)
  have 2: "env ''DEFAULT_ADMIN_UPN'' = None \<or> env ''DEFAULT_ADMIN_UPN'' = Some [] \<longrightarrow>
        ''admin'' \<notin> set (userRoles p)"
    unfolding 1 by auto
  have 3: "lc (email u) \<noteq> DEFAULT_ADMIN_UPN (load_config lc env) \<longrightarrow>
        ''admin'' \<notin> set (userRoles p)"
    unfolding iff by simp
  from p adm 1 2 3 toLowerCase_load[of lc env] show ?thesis by blast
qed

theorem admin_role_iff_default_admin_witness:
  "''admin'' \<notin> set (userRoles (the (buildClientPrincipal
      (load_config sample_toLowerCase Map.empty) (Some nameless_user)))) \<and>
   ''admin'' \<in> set (userRoles (the (buildClientPrincipal
      (load_config sample_toLowerCase example_env) (Some admin_user)))) \<and>
   ''admin'' \<notin> set (userRoles (the (buildClientPrincipal
      (load_config sample_toLowerCase example_env) (Some plain_user)))) \<and>
   ''admin'' \<in> set (userRoles (the (buildClientPrincipal
      (load_config sample_toLowerCase kelvin_env) (Some kelvin_user))))"
proof -
  have lc: "\<forall>s. (sample_toLowerCase s = []) = (s = [])"
    by (simp add: sample_toLowerCase_Nil_iff)
  note inst = admin_role_iff_default_admin[OF lc]
  have a: "Map.empty ''DEFAULT_ADMIN_UPN'' = (None :: string option)" by simp
  from inst[of Map.empty nameless_user] a
  have 1: "''admin'' \<notin> set (userRoles (the (buildClientPrincipal
      (load_config sample_toLowerCase Map.empty) (Some nameless_user))))"
    by auto
  have b: "example_env ''DEFAULT_ADMIN_UPN'' = Some ''Admin@Example.com''"
    by (simp add: example_env_def)
  have c: "sample_toLowerCase (email admin_user) = sample_toLowerCase ''Admin@Example.com''"
    by code_simp
  from inst[of example_env admin_user] b c
  have 2: "''admin'' \<in> set (userRoles (the (buildClientPrincipal
      (load_config sample_toLowerCase example_env) (Some admin_user))))"
    by auto
  have d: "sample_toLowerCase (email plain_user) \<noteq>
      DEFAULT_ADMIN_UPN (load_config sample_toLowerCase example_env)"
    by code_simp
  from inst[of example_env plain_user] d
  have 3: "''admin'' \<notin> set (userRoles (the (buildClientPrincipal
      (load_config sample_toLowerCase example_env) (Some plain_user))))"
    by auto
  have e: "kelvin_env ''DEFAULT_ADMIN_UPN'' = Some ''kim@example.com''"
    by (simp add: kelvin_env_def)
  have f: "sample_toLowerCase (email kelvin_user) = sample_toLowerCase ''kim@example.com''"
    by code_simp
  from inst[of kelvin_env kelvin_user] e f
  have 4: "''admin'' \<in> set (userRoles (the (buildClientPrincipal
      (load_config sample_toLowerCase kelvin_env) (Some kelvin_user))))"
    by auto
  from 1 2 3 4 show ?thesis by blast
qed

subsection \<open>The trust boundary: identity headers on \<^verbatim>\<open>/api\<close>\<close>













subsection \<open>The probes \<^verbatim>\<open>/.auth/me\<close> and \<^verbatim>\<open>/api/me\<close>\<close>

lemma route_matches_exclusive:
  "route_matches p ''/.auth/me'' \<Longrightarrow> \<not> route_matches p ''/health''"
  "route_matches p ''/.auth/login/aad'' \<Longrightarrow>
     \<not> route_matches p ''/health'' \<and> \<not> route_matches p ''/.auth/me''"
  "route_matches p ''/auth/callback'' \<Longrightarrow>
     \<not> route_matches p ''/health'' \<and> \<not> route_matches p ''/.auth/me'' \<and>
     \<not> route_matches p ''/.auth/login/aad''"
  "route_matches p ''/.auth/logout'' \<Longrightarrow>
     \<not> route_matches p ''/health'' \<and> \<not> route_matches p ''/.auth/me'' \<and>
     \<not> route_matches p ''/.auth/login/aad'' \<and> \<not> route_matches p ''/auth/callback''"
  "route_matches p ''/api/me'' \<Longrightarrow>
     \<not> route_matches p ''/health'' \<and> \<not> route_matches p ''/.auth/me'' \<and>
     \<not> route_matches p ''/.auth/login/aad'' \<and> \<not> route_matches p ''/auth/callback'' \<and>
     \<not> route_matches p ''/.auth/logout''"
  by (auto simp: route_matches_def)

lemma handles_get_GET: "handles_get ''GET''"
  by (simp add: handles_get_def)

lemma example_route_facts:
  "route_matches (pathname ''/.auth/me'') ''/.auth/me''"
  "route_matches (pathname ''/api/me'') ''/api/me''"
  "route_matches (pathname ''/health'') ''/health''"
  "route_matches (pathname ''/.auth/login/aad'') ''/.auth/login/aad''"
  "route_matches (pathname ''/auth/callback?code=abc&state=state-1'') ''/auth/callback''"
  "route_matches (pathname ''/auth/callback?code=abc&state=evil'') ''/auth/callback''"
  "route_matches (pathname ''/.auth/logout'') ''/.auth/logout''"
  by code_simp+

text \<open>
  Claim C5. With no user in the session, \<^verbatim>\<open>GET /.auth/me\<close> and \<^verbatim>\<open>GET /api/me\<close> are both
  answered with status 200 and the body \<^verbatim>\<open>{"clientPrincipal":null}\<close>, never with an error
  status; \<^verbatim>\<open>/api/me\<close> is answered by the gateway and not handed to the proxy. The
  session is left as it was.
\<close>

theorem unauthenticated_me_is_null_principal:
  assumes "user (session req) = None" and "rmethod req = ''GET''"
  shows "(route_matches (pathname (url req)) ''/.auth/me'' \<longrightarrow>
            gateway cfg oidcClient gen req =
              (Respond (Json 200 (JObject [(''clientPrincipal'', JNull)])), Some (session req))) \<and>
         (route_matches (pathname (url req)) ''/api/me'' \<longrightarrow>
            gateway cfg oidcClient gen req =
              (Respond (Json 200 (JObject [(''clientPrincipal'', JNull)])), Some (session req)))"
proof (intro conjI impI)
  assume r: "route_matches (pathname (url req)) ''/.auth/me''"
  have "auth_me_handler cfg req = Json 200 (JObject [(''clientPrincipal'', JNull)])"
    using assms(1) by (simp add: auth_me_handler_def buildClientPrincipal_def principal_json_def)
  with r route_matches_exclusive(1)[OF r] assms(2)
  show "gateway cfg oidcClient gen req =
      (Respond (Json 200 (JObject [(''clientPrincipal'', JNull)])), Some (session req))"
    by (simp add: gateway_def api_me_handler_def Let_def handles_get_GET)
next
  assume r: "route_matches (pathname (url req)) ''/api/me''"
  with route_matches_exclusive(5)[OF r] assms
  show "gateway cfg oidcClient gen req =
      (Respond (Json 200 (JObject [(''clientPrincipal'', JNull)])), Some (session req))"
    by (simp add: gateway_def api_me_handler_def Let_def handles_get_GET)
qed

theorem unauthenticated_me_is_null_principal_witness:
  "gateway example_config None example_gen (example_request ''GET'' ''/.auth/me'' empty_session) =
     (Respond (Json 200 (JObject [(''clientPrincipal'', JNull)])), Some empty_session) \<and>
   gateway example_config None example_gen (example_request ''GET'' ''/api/me'' empty_session) =
     (Respond (Json 200 (JObject [(''clientPrincipal'', JNull)])), Some empty_session)"
proof -
  have a: "user (session (example_request ''GET'' ''/.auth/me'' empty_session)) = None"
    "rmethod (example_request ''GET'' ''/.auth/me'' empty_session) = ''GET''"
    "user (session (example_request ''GET'' ''/api/me'' empty_session)) = None"
    "rmethod (example_request ''GET'' ''/api/me'' empty_session) = ''GET''"
    by (simp_all add: example_request_def empty_session_def)
  have r: "route_matches (pathname (url (example_request ''GET'' ''/.auth/me'' empty_session))) ''/.auth/me''"
    "route_matches (pathname (url (example_request ''GET'' ''/api/me'' empty_session))) ''/api/me''"
    by (simp_all add: example_request_def example_route_facts)
  have s: "session (example_request ''GET'' ''/.auth/me'' empty_session) = empty_session"
    "session (example_request ''GET'' ''/api/me'' empty_session) = empty_session"
    by (simp_all add: example_request_def)
  from unauthenticated_me_is_null_principal[OF a(1,2), of example_config None example_gen]
       unauthenticated_me_is_null_principal[OF a(3,4), of example_config None example_gen]
       r s
  show ?thesis by simp
qed

subsection \<open>Startup without the provider\<close>






subsection \<open>The callback\<close>

lemma js_or_cases:
  "js_or a b = (if truthy a then a else b)"
  by (simp add: js_or_def)

lemma js_or_lit_cases:
  "js_or_lit a d = (if truthy a then the a else d)"
  by (cases a) (simp_all add: js_or_lit_def truthy_def)

text \<open>
  Claim C8. After a successful token exchange the session user's email is the
  \<^verbatim>\<open>preferred_username\<close> claim, else the \<^verbatim>\<open>email\<close> claim, else the \<^verbatim>\<open>upn\<close> claim, else
  the empty string; its subject id is the \<^verbatim>\<open>oid\<close> claim, else the \<^verbatim>\<open>sub\<close> claim; its
  display name is the \<^verbatim>\<open>name\<close> claim, else the empty string. "Else" is that of
  \<^verbatim>\<open>||\<close>: a claim that is missing or empty gives way to the next.
\<close>

theorem callback_claim_precedence:
  assumes "callback client (CALLBACK_URL cfg) (url req)
             (oidcNonce (session req)) (oidcState (session req)) = Inr claims"
  shows "\<exists>s usr. snd (callback_handler cfg (Some client) req) = Some s \<and> user s = Some usr \<and>
     email usr =
       (if truthy (claims ''preferred_username'') then the (claims ''preferred_username'')
        else if truthy (claims ''email'') then the (claims ''email'')
        else if truthy (claims ''upn'') then the (claims ''upn'')
        else []) \<and>
     oid usr = (if truthy (claims ''oid'') then claims ''oid'' else claims ''sub'') \<and>
     name usr = (if truthy (claims ''name'') then the (claims ''name'') else [])"
  using assms
  by (simp add: callback_handler_def Let_def claims_user_def js_or_cases js_or_lit_cases)

theorem callback_claim_precedence_witness:
  "\<exists>s usr. snd (callback_handler example_config (Some example_client) good_callback_request) = Some s \<and>
     user s = Some usr \<and> email usr = ''bob@example.com'' \<and> oid usr = Some ''sub-1'' \<and>
     name usr = []"
proof -
  have ok: "callback example_client (CALLBACK_URL example_config) (url good_callback_request)
      (oidcNonce (session good_callback_request)) (oidcState (session good_callback_request)) =
      Inr example_claims"
    by (simp add: example_client_def good_callback_request_def pending_session_def)
  have t: "\<not> truthy (example_claims ''preferred_username'')" "truthy (example_claims ''email'')"
    "\<not> truthy (example_claims ''oid'')" "\<not> truthy (example_claims ''name'')"
    "example_claims ''email'' = Some ''bob@example.com''" "example_claims ''sub'' = Some ''sub-1''"
    by (simp_all add: example_claims_def truthy_def)
  from callback_claim_precedence[OF ok] t show ?thesis by simp
qed

lemma callback_failure:
  assumes "callback client (CALLBACK_URL cfg) (url req)
             (oidcNonce (session req)) (oidcState (session req)) = Inl err"
  shows "callback_handler cfg (Some client) req =
     (Respond (Send 500 ''Authentication failed. Please try again.''), Some (session req))"
  using assms by (simp add: callback_handler_def)

lemma callback_success_clears:
  assumes "callback client (CALLBACK_URL cfg) (url req)
             (oidcNonce (session req)) (oidcState (session req)) = Inr claims"
  shows "\<exists>s. snd (callback_handler cfg (Some client) req) = Some s \<and>
     oidcNonce s = None \<and> oidcState s = None \<and> postLoginRedirect s = None"
  using assms by (simp add: callback_handler_def Let_def)

text \<open>
  Claim C2 says that a failed callback clears the nonce and the state kept in the
  session, as a successful one does. The handler answers a failed exchange with the
  fixed text and status 500, whatever the provider's message was, but it leaves the
  session as it found it: here a callback with a forged state is refused, and the
  nonce, the state and the redirect target of the pending login are still in the
  session afterwards.
\<close>

theorem failed_callback_keeps_pending_login:
  "gateway example_config (Some example_client) example_gen forged_callback_request =
     (Respond (Send 500 ''Authentication failed. Please try again.''), Some pending_session) \<and>
   oidcNonce pending_session = Some ''nonce-1'' \<and>
   oidcState pending_session = Some ''state-1'' \<and>
   postLoginRedirect pending_session = Some (QString ''/tenants'')"
proof -
  have f: "callback example_client (CALLBACK_URL example_config) (url forged_callback_request)
      (oidcNonce (session forged_callback_request)) (oidcState (session forged_callback_request)) =
      Inl ''state mismatch: expected state-1''"
    by (simp add: example_client_def forged_callback_request_def)
  have r: "route_matches (pathname (url forged_callback_request)) ''/auth/callback''"
    "rmethod forged_callback_request = ''GET''"
    "session forged_callback_request = pending_session"
    by (simp_all add: forged_callback_request_def example_route_facts)
  from route_matches_exclusive(3)[OF r(1)] r callback_failure[OF f]
  have "gateway example_config (Some example_client) example_gen forged_callback_request =
     (Respond (Send 500 ''Authentication failed. Please try again.''), Some pending_session)"
    by (simp add: gateway_def api_me_handler_def Let_def handles_get_GET)
  then show ?thesis by (simp add: pending_session_def)
qed

subsection \<open>Logout\<close>

lemma logout_string_target:
  assumes "q_or_lit (q_or (query req ''post_logout_redirect_uri'')
                          (query req ''post_logout_redirect_url'')) ''/'' = QString p"
  shows "logout_handler cfg req = (Respond (Redirect (logoutUrl cfg p)), None)"
  using assms by (simp add: logout_handler_def)

lemma logoutUrl_relative:
  assumes "\<not> startsWith p ''http''"
  shows "logoutUrl cfg p =
     ''https://login.microsoftonline.com/'' @ template (TENANT_ID cfg) @
     ''/oauth2/v2.0/logout?post_logout_redirect_uri='' @ encodeURIComponent (BASE_URL cfg @ p)"
  using assms by (simp add: logoutUrl_def)

lemma logout_ignores_session:
  "logout_handler cfg (req\<lparr>session := s\<rparr>) = logout_handler cfg req"
  by (simp add: logout_handler_def)

lemma logout_twice:
  assumes "rmethod req = ''GET''" and "route_matches (pathname (url req)) ''/.auth/logout''"
    and "q_or_lit (q_or (query req ''post_logout_redirect_uri'')
                        (query req ''post_logout_redirect_url'')) ''/'' = QString p"
  shows "gateway cfg oidcClient gen req = (Respond (Redirect (logoutUrl cfg p)), None) \<and>
         gateway cfg oidcClient gen
           (req\<lparr>session := load_session (snd (gateway cfg oidcClient gen req))\<rparr>) =
         (Respond (Redirect (logoutUrl cfg p)), None)"
proof -
  have g: "gateway cfg oidcClient gen (req\<lparr>session := s\<rparr>) =
      (Respond (Redirect (logoutUrl cfg p)), None)" for s
    using route_matches_exclusive(4)[OF assms(2)] assms
    by (simp add: gateway_def Let_def handles_get_GET logout_handler_def)
  from g[of "session req"] g show ?thesis by simp
qed

text \<open>
  Claim C6 says that every \<^verbatim>\<open>GET /.auth/logout\<close> destroys the session and redirects to
  the provider's logout endpoint. It does when the redirect parameter is missing or is
  one string (the lemmas above). When the parameter is given twice its value is an
  array: the session is destroyed, and then \<^verbatim>\<open>startsWith\<close> is called on the array,
  inside the callback of \<^verbatim>\<open>destroy\<close>; no redirect is sent.
\<close>

theorem logout_repeated_parameter_throws:
  "gateway example_config (Some example_client) example_gen
     (logout_request ''/.auth/logout?post_logout_redirect_uri=/a&post_logout_redirect_uri=/b''
        (Some (QArray [''/a'', ''/b''])) (user_session plain_user)) =
   (Uncaught ''TypeError: postLogoutRedirect.startsWith is not a function'', None)"
proof -
  let ?req = "logout_request ''/.auth/logout?post_logout_redirect_uri=/a&post_logout_redirect_uri=/b''
        (Some (QArray [''/a'', ''/b''])) (user_session plain_user)"
  have r: "route_matches (pathname (url ?req)) ''/.auth/logout''"
    unfolding logout_request_def by code_simp
  have m: "rmethod ?req = ''GET''"
    by (simp add: logout_request_def)
  have l: "logout_handler example_config ?req =
      (Uncaught ''TypeError: postLogoutRedirect.startsWith is not a function'', None)"
    by (simp add: logout_handler_def logout_request_def q_or_def q_truthy_def q_or_lit_def)
  from route_matches_exclusive(4)[OF r] r m l show ?thesis
    by (simp add: gateway_def api_me_handler_def Let_def handles_get_GET)
qed

subsection \<open>The URL that reaches the backend\<close>

lemma pathname_api_slash: "pathname (''/api/'' @ r) = ''/api/'' @ pathname r"
  by (simp add: pathname_def)















subsection \<open>Other methods on \<^verbatim>\<open>/api/me\<close>\<close>

text \<open>
  Claim C10, amended. A request to \<^verbatim>\<open>/api/me\<close> whose method is neither GET nor HEAD,
  from a session without a user, is not answered by the gateway: it is handed to the
  proxy, with the inbound identity headers deleted and none set.
\<close>

theorem api_me_other_methods_forwarded:
  assumes "rmethod req \<noteq> ''GET''" and "rmethod req \<noteq> ''HEAD''"
    and "route_matches (pathname (url req)) ''/api/me''"
    and "user (session req) = None"
  shows "gateway cfg oidcClient gen req =
           (Proxy (pathRewrite (mount_strip (url req))) (api_middleware cfg req),
            Some (session req)) \<and>
         (\<forall>k\<in>identity_headers. headers (api_middleware cfg req) k = None)"
proof -
  from assms(1,2) have ng: "\<not> handles_get (rmethod req)"
    by (simp add: handles_get_def)
  from assms(3) have "mount_matches (pathname (url req))"
    by (rule api_me_is_mounted)
  with ng have "gateway cfg oidcClient gen req = (api_proxy cfg req, Some (session req))"
    by (simp add: gateway_api)
  with assms(4) show ?thesis
    by (simp add: api_proxy_def api_middleware_unauth)
qed

theorem api_me_other_methods_forwarded_witness:
  "gateway example_config None example_gen (example_request ''POST'' ''/api/me'' empty_session) =
     (Proxy ''/api/me''
        (api_middleware example_config (example_request ''POST'' ''/api/me'' empty_session)),
      Some empty_session) \<and>
   headers (api_middleware example_config (example_request ''POST'' ''/api/me'' empty_session))
     ''x-ms-client-principal'' = None"
proof -
  let ?req = "example_request ''POST'' ''/api/me'' empty_session"
  have m: "rmethod ?req \<noteq> ''GET''" "rmethod ?req \<noteq> ''HEAD''"
    by (simp_all add: example_request_def)
  have r: "route_matches (pathname (url ?req)) ''/api/me''"
    by (simp add: example_request_def example_route_facts)
  have u: "user (session ?req) = None"
    by (simp add: example_request_def empty_session_def)
  have rw: "pathRewrite (mount_strip (url ?req)) = ''/api/me''"
    unfolding example_request_def by code_simp
  have k: "''x-ms-client-principal'' \<in> identity_headers"
    by (simp add: identity_headers_def)
  have s: "session ?req = empty_session"
    by (simp add: example_request_def)
  from api_me_other_methods_forwarded[OF m r u, of example_config None example_gen] rw k s
  show ?thesis by simp
qed

text \<open>
  Claim C10 as stated, for every method other than GET, fails: \<^verbatim>\<open>app.get\<close> takes HEAD
  too, so a HEAD request to \<^verbatim>\<open>/api/me\<close> from a session without a user is answered by
  the gateway with the null principal and is not forwarded.
\<close>

theorem head_api_me_counterexample:
  "rmethod (example_request ''HEAD'' ''/api/me'' empty_session) \<noteq> ''GET'' \<and>
   user (session (example_request ''HEAD'' ''/api/me'' empty_session)) = None \<and>
   gateway example_config None example_gen (example_request ''HEAD'' ''/api/me'' empty_session) =
     (Respond (Json 200 (JObject [(''clientPrincipal'', JNull)])), Some empty_session)"
  by (simp add: gateway_def api_me_handler_def Let_def example_request_def example_route_facts handles_get_def
      empty_session_def route_matches_exclusive(5)[OF example_route_facts(2)])

end
